theory Spec2Isabelle
  imports Main "HOL-Library.Char_ord" "HOL-Library.List_Lexorder" "HOL-Library.Multiset"
begin

section \<open>Data model (types/task.ts)\<close>

text \<open>
  A \<open>Date\<close> is its time value, the number of milliseconds since the epoch. The
  strings of the program are modelled as \<open>string\<close>; the character operations
  (\<open>trim\<close>, \<open>toLowerCase\<close>) are modelled on ASCII.
\<close>

type_synonym Date = int

datatype TaskStatus = OPEN | COMPLETE

record Task =
  task_id :: string
  title :: string
  description :: "string option"
  dueDate :: "Date option"
  status :: TaskStatus
  createdAt :: Date
  updatedAt :: Date
  userId :: "string option"

record CreateTaskRequest =
  c_title :: string
  c_description :: "string option"
  c_dueDate :: "Date option"

text \<open>
  An optional property of an update request is either not a property of the object at all,
  or a property holding a value, which may be \<open>undefined\<close>: the object spread of
  \<open>updateTask\<close> copies the second kind, \<open>undefined\<close> included.
\<close>

datatype 'a own_property = Absent | Present 'a

record UpdateTaskRequest =
  u_id :: string
  u_title :: "string option"
  u_description :: "string option own_property"
  u_dueDate :: "Date option own_property"
  u_status :: "TaskStatus option"

datatype SortBy = SortDueDate | SortCreatedAt | SortTitle

datatype SortOrder = Asc | Desc

record TaskFilters =
  f_status :: "TaskStatus option"
  f_search :: "string option"
  f_sortBy :: "SortBy option"
  f_sortOrder :: "SortOrder option"

datatype js_error = SyntaxError | TypeError | QuotaExceededError | Error string

section \<open>String operations of the platform\<close>

definition is_space :: "char \<Rightarrow> bool" where
  "is_space c = (c \<in> set [CHR '' '', CHR 0x09, CHR 0x0A, CHR 0x0B, CHR 0x0C, CHR 0x0D])"

definition trim :: "string \<Rightarrow> string" where
  "trim s = rev (dropWhile is_space (rev (dropWhile is_space s)))"

definition lower_char :: "char \<Rightarrow> char" where
  "lower_char c =
     (case map_of (zip ''ABCDEFGHIJKLMNOPQRSTUVWXYZ'' ''abcdefghijklmnopqrstuvwxyz'') c of
        None \<Rightarrow> c
      | Some l \<Rightarrow> l)"

definition toLowerCase :: "string \<Rightarrow> string" where
  "toLowerCase s = map lower_char s"

fun str_includes :: "string \<Rightarrow> string \<Rightarrow> bool" where
  "str_includes [] sub = (sub = [])"
| "str_includes (c # cs) sub = (take (length sub) (c # cs) = sub \<or> str_includes cs sub)"

definition digit_char :: "nat \<Rightarrow> char" where
  "digit_char d = ''0123456789'' ! d"

fun show_nat :: "nat \<Rightarrow> string" where
  "show_nat n = (if n < 10 then [digit_char n] else show_nat (n div 10) @ [digit_char (n mod 10)])"

declare show_nat.simps [simp del]

definition show_int :: "int \<Rightarrow> string" where
  "show_int i = (if i < 0 then CHR ''-'' # show_nat (nat (- i)) else show_nat (nat i))"

section \<open>Persistent store (localStorage)\<close>

text \<open>
  The value written under the key \<open>todo_tasks\<close> is a JSON text. A text is modelled by
  what \<open>JSON.parse\<close> makes of it: a text that \<open>JSON.parse\<close> rejects
  (\<open>Malformed\<close>, the empty text among them), or the text of a JSON value
  (\<open>Text_of\<close>). A JSON value is an array or something that is not an array; an element
  of an array is \<open>null\<close> or an object with the properties that \<open>JSON.stringify\<close>
  writes for a \<open>Task\<close>: a \<open>Date\<close> is written by its \<open>toJSON\<close> as the ISO string of
  its instant, with the millisecond precision of the time value, and a property whose value
  is \<open>undefined\<close> is left out. Array elements of any other shape are outside this model.
\<close>

record task_json =
  j_id :: string
  j_title :: string
  j_description :: "string option"
  j_dueDate :: "Date option"
  j_status :: TaskStatus
  j_createdAt :: Date
  j_updatedAt :: Date
  j_userId :: "string option"

datatype json_elem = JNull | JTask task_json

datatype json_value = JArray "json_elem list" | JNotArray

datatype json_text = Malformed string | Text_of json_value

definition JSON_parse :: "json_text \<Rightarrow> js_error + json_value" where
  "JSON_parse s = (case s of Malformed _ \<Rightarrow> Inl SyntaxError | Text_of v \<Rightarrow> Inr v)"

definition JSON_stringify :: "json_value \<Rightarrow> json_text" where
  "JSON_stringify v = Text_of v"

text \<open>
  \<open>quota_exceeded\<close> says that \<open>setItem\<close> throws; a write that throws stores nothing.
\<close>

record localStorage =
  todo_tasks :: "json_text option"
  todo_user_id :: "string option"
  quota_exceeded :: bool

definition setItem_tasks :: "json_text \<Rightarrow> localStorage \<Rightarrow> (js_error + unit) \<times> localStorage" where
  "setItem_tasks v st =
     (if quota_exceeded st then (Inl QuotaExceededError, st)
      else (Inr (), st\<lparr>todo_tasks := Some v\<rparr>))"

section \<open>Task service (services/taskService.ts)\<close>

definition toJSON :: "Task \<Rightarrow> json_elem" where
  "toJSON t = JTask \<lparr>j_id = task_id t, j_title = title t, j_description = description t,
     j_dueDate = dueDate t, j_status = status t, j_createdAt = createdAt t,
     j_updatedAt = updatedAt t, j_userId = userId t\<rparr>"

text \<open>
  The callback of \<open>parsed.map\<close> in \<open>loadTasksFromStorage\<close>: reading a property of
  \<open>null\<close> throws a TypeError; \<open>dueDate\<close> is converted when it is truthy, and an ISO
  string is never empty.
\<close>

definition revive :: "json_elem \<Rightarrow> js_error + Task" where
  "revive e = (case e of
       JNull \<Rightarrow> Inl TypeError
     | JTask j \<Rightarrow> Inr \<lparr>task_id = j_id j, title = j_title j, description = j_description j,
         dueDate = (case j_dueDate j of None \<Rightarrow> None | Some d \<Rightarrow> Some d),
         status = j_status j, createdAt = j_createdAt j, updatedAt = j_updatedAt j,
         userId = j_userId j\<rparr>)"

fun map_throwing :: "('a \<Rightarrow> js_error + 'b) \<Rightarrow> 'a list \<Rightarrow> js_error + 'b list" where
  "map_throwing f [] = Inr []"
| "map_throwing f (x # xs) =
     (case f x of Inl e \<Rightarrow> Inl e
      | Inr y \<Rightarrow> (case map_throwing f xs of Inl e \<Rightarrow> Inl e | Inr ys \<Rightarrow> Inr (y # ys)))"

text \<open>The body of the \<open>try\<close> block of \<open>loadTasksFromStorage\<close>.\<close>

definition load_try :: "localStorage \<Rightarrow> js_error + Task list" where
  "load_try st = (case todo_tasks st of
       None \<Rightarrow> Inr []
     | Some stored \<Rightarrow>
         if stored = Malformed [] then Inr []
         else (case JSON_parse stored of
             Inl e \<Rightarrow> Inl e
           | Inr parsed \<Rightarrow> (case parsed of
                 JNotArray \<Rightarrow> Inl TypeError
               | JArray es \<Rightarrow> map_throwing revive es)))"

definition loadTasksFromStorage :: "localStorage \<Rightarrow> Task list" where
  "loadTasksFromStorage st = (case load_try st of Inl e \<Rightarrow> [] | Inr ts \<Rightarrow> ts)"

definition saveTasksToStorage :: "Task list \<Rightarrow> localStorage \<Rightarrow> (js_error + unit) \<times> localStorage" where
  "saveTasksToStorage tasks st =
     (case setItem_tasks (JSON_stringify (JArray (map toJSON tasks))) st of
        (Inl e, st') \<Rightarrow> (Inl (Error ''Failed to save tasks''), st')
      | (Inr u, st') \<Rightarrow> (Inr (), st'))"

text \<open>
  The readings of the clock and of the random generator that \<open>createTask\<close> makes:
  \<open>Date.now()\<close> and \<open>Math.random().toString(36)\<close> in \<open>generateId\<close>, and the two
  \<open>new Date()\<close> of the record.
\<close>

record Env =
  date_now :: int
  math_random_36 :: string
  new_date_created :: Date
  new_date_updated :: Date

definition generateId :: "Env \<Rightarrow> string" where
  "generateId env =
     ''task_'' @ show_int (date_now env) @ ''_'' @ take 9 (drop 2 (math_random_36 env))"

definition getCurrentUserId :: "localStorage \<Rightarrow> string" where
  "getCurrentUserId st = (case todo_user_id st of
       None \<Rightarrow> ''anonymous''
     | Some u \<Rightarrow> if u = [] then ''anonymous'' else u)"

definition createTask ::
  "Env \<Rightarrow> CreateTaskRequest \<Rightarrow> localStorage \<Rightarrow> (js_error + Task) \<times> localStorage" where
  "createTask env request st =
     (let task = \<lparr>task_id = generateId env,
                  title = trim (c_title request),
                  description = map_option trim (c_description request),
                  dueDate = c_dueDate request,
                  status = OPEN,
                  createdAt = new_date_created env,
                  updatedAt = new_date_updated env,
                  userId = Some (getCurrentUserId st)\<rparr>;
          tasks = loadTasksFromStorage st
      in case saveTasksToStorage (tasks @ [task]) st of
           (Inl e, st') \<Rightarrow> (Inl (Error ''Failed to create task''), st')
         | (Inr u, st') \<Rightarrow> (Inr task, st'))"

fun findIndex :: "('a \<Rightarrow> bool) \<Rightarrow> 'a list \<Rightarrow> nat option" where
  "findIndex P [] = None"
| "findIndex P (x # xs) = (if P x then Some 0 else map_option Suc (findIndex P xs))"

text \<open>
  The object spread \<open>{...tasks[taskIndex], ...request, updatedAt: new Date()}\<close>: every
  property of the request replaces the task's, and \<open>updatedAt\<close> is stamped last.
\<close>

definition spread_update :: "Task \<Rightarrow> UpdateTaskRequest \<Rightarrow> Date \<Rightarrow> Task" where
  "spread_update t request now =
     \<lparr>task_id = u_id request,
      title = (case u_title request of None \<Rightarrow> title t | Some s \<Rightarrow> s),
      description = (case u_description request of Absent \<Rightarrow> description t | Present d \<Rightarrow> d),
      dueDate = (case u_dueDate request of Absent \<Rightarrow> dueDate t | Present d \<Rightarrow> d),
      status = (case u_status request of None \<Rightarrow> status t | Some s \<Rightarrow> s),
      createdAt = createdAt t,
      updatedAt = now,
      userId = userId t\<rparr>"

text \<open>
  Each public method of the service runs its body in a \<open>try\<close> block whose \<open>catch\<close>
  logs the error and throws a new one with the method's own message. The \<open>_try\<close>
  definitions are the bodies.
\<close>

definition updateTask_try ::
  "Date \<Rightarrow> UpdateTaskRequest \<Rightarrow> localStorage \<Rightarrow> (js_error + Task) \<times> localStorage" where
  "updateTask_try now request st =
     (let tasks = loadTasksFromStorage st
      in case findIndex (\<lambda>task. task_id task = u_id request) tasks of
           None \<Rightarrow> (Inl (Error ''Task not found''), st)
         | Some taskIndex \<Rightarrow>
             (let updatedTask = spread_update (tasks ! taskIndex) request now
              in case saveTasksToStorage (tasks[taskIndex := updatedTask]) st of
                   (Inl e, st') \<Rightarrow> (Inl e, st')
                 | (Inr u, st') \<Rightarrow> (Inr updatedTask, st')))"

definition updateTask ::
  "Date \<Rightarrow> UpdateTaskRequest \<Rightarrow> localStorage \<Rightarrow> (js_error + Task) \<times> localStorage" where
  "updateTask now request st =
     (case updateTask_try now request st of
        (Inl e, st') \<Rightarrow> (Inl (Error ''Failed to update task''), st')
      | (Inr t, st') \<Rightarrow> (Inr t, st'))"

definition deleteTask_try :: "string \<Rightarrow> localStorage \<Rightarrow> (js_error + unit) \<times> localStorage" where
  "deleteTask_try i st =
     (let tasks = loadTasksFromStorage st;
          filteredTasks = filter (\<lambda>task. task_id task \<noteq> i) tasks
      in if length filteredTasks = length tasks then (Inl (Error ''Task not found''), st)
         else saveTasksToStorage filteredTasks st)"

definition deleteTask :: "string \<Rightarrow> localStorage \<Rightarrow> (js_error + unit) \<times> localStorage" where
  "deleteTask i st =
     (case deleteTask_try i st of
        (Inl e, st') \<Rightarrow> (Inl (Error ''Failed to delete task''), st')
      | (Inr u, st') \<Rightarrow> (Inr (), st'))"

text \<open>
  \<open>toggleTaskCompletion\<close> returns the promise of \<open>updateTask\<close> without awaiting it,
  so a rejection of \<open>updateTask\<close> passes by the \<open>catch\<close> of the toggle.
\<close>

definition toggleTaskCompletion ::
  "Date \<Rightarrow> string \<Rightarrow> localStorage \<Rightarrow> (js_error + Task) \<times> localStorage" where
  "toggleTaskCompletion now i st =
     (case find (\<lambda>task. task_id task = i) (loadTasksFromStorage st) of
        None \<Rightarrow> (Inl (Error ''Failed to toggle task''), st)
      | Some task \<Rightarrow>
          (let newStatus = (if status task = OPEN then COMPLETE else OPEN)
           in updateTask now \<lparr>u_id = i, u_title = None, u_description = Absent,
                u_dueDate = Absent, u_status = Some newStatus\<rparr> st))"

subsection \<open>Query: filtering and sorting\<close>

datatype sort_value = DateValue Date | StringValue string

text \<open>\<open>new Date('9999-12-31')\<close>: midnight UTC of that day.\<close>

definition date_9999_12_31 :: Date where
  "date_9999_12_31 = 253402214400000"

definition getSortValue :: "Task \<Rightarrow> SortBy \<Rightarrow> sort_value" where
  "getSortValue task sortBy = (case sortBy of
       SortDueDate \<Rightarrow> DateValue (case dueDate task of None \<Rightarrow> date_9999_12_31 | Some d \<Rightarrow> d)
     | SortCreatedAt \<Rightarrow> DateValue (createdAt task)
     | SortTitle \<Rightarrow> StringValue (toLowerCase (title task)))"

text \<open>
  The operator \<open><\<close> on two sort values: two dates are compared by their time values, two
  strings by their code units. The two values of one comparison come from the same
  \<open>sortBy\<close>, so they are never of different kinds.
\<close>

fun js_less :: "sort_value \<Rightarrow> sort_value \<Rightarrow> bool" where
  "js_less (DateValue a) (DateValue b) = (a < b)"
| "js_less (StringValue a) (StringValue b) = (a < b)"
| "js_less _ _ = False"

definition compareFn :: "SortBy \<Rightarrow> SortOrder option \<Rightarrow> Task \<Rightarrow> Task \<Rightarrow> int" where
  "compareFn sortBy sortOrder a b =
     (let aValue = getSortValue a sortBy;
          bValue = getSortValue b sortBy;
          comparison = (if js_less aValue bValue then -1 else if js_less bValue aValue then 1 else 0)
      in if sortOrder = Some Desc then - comparison else comparison)"

text \<open>
  \<open>Array.prototype.sort\<close> with a comparison function is a stable sort: with a consistent
  comparison function its result is the one that inserting the elements, last first, each
  before the first element it does not follow, produces.
\<close>

fun insert_sorted :: "('a \<Rightarrow> 'a \<Rightarrow> int) \<Rightarrow> 'a \<Rightarrow> 'a list \<Rightarrow> 'a list" where
  "insert_sorted cmp x [] = [x]"
| "insert_sorted cmp x (y # ys) =
     (if cmp x y \<le> 0 then x # y # ys else y # insert_sorted cmp x ys)"

definition Array_sort :: "('a \<Rightarrow> 'a \<Rightarrow> int) \<Rightarrow> 'a list \<Rightarrow> 'a list" where
  "Array_sort cmp xs = foldr (insert_sorted cmp) xs []"

definition matches_search :: "string \<Rightarrow> Task \<Rightarrow> bool" where
  "matches_search searchLower task =
     (str_includes (toLowerCase (title task)) searchLower \<or>
      (case description task of None \<Rightarrow> False
       | Some d \<Rightarrow> str_includes (toLowerCase d) searchLower))"

definition apply_filters :: "TaskFilters option \<Rightarrow> Task list \<Rightarrow> Task list" where
  "apply_filters filters tasks =
     (let byStatus = (case Option.bind filters f_status of
                        None \<Rightarrow> tasks
                      | Some s \<Rightarrow> filter (\<lambda>task. status task = s) tasks)
      in case Option.bind filters f_search of
           None \<Rightarrow> byStatus
         | Some search \<Rightarrow>
             if search = [] then byStatus
             else filter (matches_search (toLowerCase search)) byStatus)"

definition apply_sort :: "TaskFilters option \<Rightarrow> Task list \<Rightarrow> Task list" where
  "apply_sort filters filteredTasks =
     (case Option.bind filters f_sortBy of
        None \<Rightarrow> filteredTasks
      | Some sortBy \<Rightarrow>
          Array_sort (compareFn sortBy (Option.bind filters f_sortOrder)) filteredTasks)"

text \<open>
  Nothing in the \<open>try\<close> block of \<open>getTasks\<close> throws: \<open>loadTasksFromStorage\<close> catches
  its own errors.
\<close>

definition getTasks :: "TaskFilters option \<Rightarrow> localStorage \<Rightarrow> js_error + Task list" where
  "getTasks filters st =
     Inr (apply_sort filters (apply_filters filters (loadTasksFromStorage st)))"

subsection \<open>Statistics\<close>

record TaskStats =
  total :: nat
  completed :: nat
  pending :: nat
  overdue :: nat

definition getTaskStats :: "Date \<Rightarrow> localStorage \<Rightarrow> js_error + TaskStats" where
  "getTaskStats now st = (case getTasks None st of
       Inl e \<Rightarrow> Inl e
     | Inr tasks \<Rightarrow> Inr
         \<lparr>total = length tasks,
          completed = length (filter (\<lambda>task. status task = COMPLETE) tasks),
          pending = length (filter (\<lambda>task. status task = OPEN) tasks),
          overdue = length (filter (\<lambda>task. status task = OPEN \<and>
                      (case dueDate task of None \<Rightarrow> False | Some d \<Rightarrow> d < now)) tasks)\<rparr>)"

section \<open>Tasks hook (hooks/useTasks.ts)\<close>

text \<open>
  The state of the hook is the visible collection, the filters, the loading flag and the
  last error. Each action is an asynchronous function: it runs up to its \<open>await\<close> of
  the service call, and goes on when the call has resolved. For each action, the
  \<open>_pending\<close> definition is the state of the hook while the service call is in flight,
  and the definition with the action's name is the state, the store and the result once
  the action has finished.
\<close>

record useTasks_state =
  tasks :: "Task list"
  filters :: TaskFilters
  isLoading :: bool
  error :: "string option"

definition message :: "js_error \<Rightarrow> string" where
  "message e = (case e of Error m \<Rightarrow> m | _ \<Rightarrow> [])"

definition message_or :: "js_error \<Rightarrow> string \<Rightarrow> string" where
  "message_or e fallback = (if message e = [] then fallback else message e)"




definition replace_task :: "Task \<Rightarrow> Task list \<Rightarrow> Task list" where
  "replace_task updatedTask prev =
     map (\<lambda>task. if task_id task = task_id updatedTask then updatedTask else task) prev"

definition hook_updateTask_pending :: "useTasks_state \<Rightarrow> useTasks_state" where
  "hook_updateTask_pending h = h\<lparr>error := None\<rparr>"

definition hook_updateTask ::
  "Date \<Rightarrow> UpdateTaskRequest \<Rightarrow> useTasks_state \<times> localStorage
     \<Rightarrow> Task option \<times> useTasks_state \<times> localStorage" where
  "hook_updateTask now request hs =
     (let h = hook_updateTask_pending (fst hs)
      in case updateTask now request (snd hs) of
           (Inr updatedTask, st') \<Rightarrow>
             (Some updatedTask, h\<lparr>tasks := replace_task updatedTask (tasks h)\<rparr>, st')
         | (Inl err, st') \<Rightarrow>
             (None, h\<lparr>error := Some (message_or err ''Failed to update task'')\<rparr>, st'))"



definition hook_toggleTaskCompletion_pending :: "useTasks_state \<Rightarrow> useTasks_state" where
  "hook_toggleTaskCompletion_pending h = h\<lparr>error := None\<rparr>"

definition hook_toggleTaskCompletion ::
  "Date \<Rightarrow> string \<Rightarrow> useTasks_state \<times> localStorage
     \<Rightarrow> Task option \<times> useTasks_state \<times> localStorage" where
  "hook_toggleTaskCompletion now i hs =
     (let h = hook_toggleTaskCompletion_pending (fst hs)
      in case toggleTaskCompletion now i (snd hs) of
           (Inr updatedTask, st') \<Rightarrow>
             (Some updatedTask, h\<lparr>tasks := replace_task updatedTask (tasks h)\<rparr>, st')
         | (Inl err, st') \<Rightarrow>
             (None, h\<lparr>error := Some (message_or err ''Failed to toggle task'')\<rparr>, st'))"

section \<open>Example data\<close>

definition empty_store :: localStorage where
  "empty_store = \<lparr>todo_tasks = None, todo_user_id = None, quota_exceeded = False\<rparr>"

definition env0 :: Env where
  "env0 = \<lparr>date_now = 1700000000000, math_random_36 = ''0.4fzyo82mvyr'',
           new_date_created = 1700000000000, new_date_updated = 1700000000000\<rparr>"

definition milk_request :: CreateTaskRequest where
  "milk_request = \<lparr>c_title = '' Buy milk '', c_description = None, c_dueDate = None\<rparr>"


definition rent_task :: Task where
  "rent_task = \<lparr>task_id = ''task_1700000100000_k3j9z0q1x'', title = ''Pay rent'',
     description = Some ''before the 5th'', dueDate = Some 1699913600000, status = OPEN,
     createdAt = 1700000100000, updatedAt = 1700000100000, userId = Some ''user_1699000000000''\<rparr>"

definition store_of :: "Task list \<Rightarrow> localStorage" where
  "store_of ts = \<lparr>todo_tasks = Some (JSON_stringify (JArray (map toJSON ts))),
     todo_user_id = Some ''user_1699000000000'', quota_exceeded = False\<rparr>"

definition full_store_of :: "Task list \<Rightarrow> localStorage" where
  "full_store_of ts = (store_of ts)\<lparr>quota_exceeded := True\<rparr>"

definition corrupt_store :: localStorage where
  "corrupt_store = \<lparr>todo_tasks = Some (Malformed ''[{oops''), todo_user_id = None,
     quota_exceeded = False\<rparr>"

definition rename_request :: UpdateTaskRequest where
  "rename_request = \<lparr>u_id = ''task_1700000100000_k3j9z0q1x'', u_title = Some ''Pay the rent'',
     u_description = Absent, u_dueDate = Absent, u_status = None\<rparr>"

definition h0 :: useTasks_state where
  "h0 = \<lparr>tasks = [rent_task],
     filters = \<lparr>f_status = None, f_search = None, f_sortBy = None, f_sortOrder = None\<rparr>,
     isLoading = False, error = None\<rparr>"



definition anonymous_task :: Task where
  "anonymous_task = \<lparr>task_id = ''task_1700000000000_4fzyo82mv'', title = ''Buy milk'',
     description = None, dueDate = None, status = COMPLETE, createdAt = 1700000000000,
     updatedAt = 1700000050000, userId = Some ''anonymous''\<rparr>"

section \<open>Sort keys\<close>









section \<open>Loading and saving\<close>

lemma map_throwing_revive_toJSON: "map_throwing revive (map toJSON ts) = Inr ts"
  by (induction ts) (simp_all add: revive_def toJSON_def split: option.splits)

lemma load_after_write:
  "loadTasksFromStorage (st\<lparr>todo_tasks := Some (JSON_stringify (JArray (map toJSON ts)))\<rparr>) = ts"
  by (simp add: loadTasksFromStorage_def load_try_def JSON_parse_def JSON_stringify_def
      map_throwing_revive_toJSON)

lemma saveTasksToStorage_ok:
  "\<not> quota_exceeded st \<Longrightarrow>
   saveTasksToStorage ts st =
     (Inr (), st\<lparr>todo_tasks := Some (JSON_stringify (JArray (map toJSON ts)))\<rparr>)"
  by (simp add: saveTasksToStorage_def setItem_tasks_def)

lemma saveTasksToStorage_fails:
  "quota_exceeded st \<Longrightarrow> saveTasksToStorage ts st = (Inl (Error ''Failed to save tasks''), st)"
  by (simp add: saveTasksToStorage_def setItem_tasks_def)

lemma load_store_of: "loadTasksFromStorage (store_of ts) = ts"
  by (simp add: store_of_def loadTasksFromStorage_def load_try_def JSON_parse_def
      JSON_stringify_def map_throwing_revive_toJSON)

lemma load_full_store_of: "loadTasksFromStorage (full_store_of ts) = ts"
  by (simp add: full_store_of_def store_of_def loadTasksFromStorage_def load_try_def
      JSON_parse_def JSON_stringify_def map_throwing_revive_toJSON)



lemma createTask_stored:
  assumes "\<not> quota_exceeded st"
  shows "loadTasksFromStorage (snd (createTask env request st))
           = loadTasksFromStorage st @
             [\<lparr>task_id = generateId env, title = trim (c_title request),
               description = map_option trim (c_description request),
               dueDate = c_dueDate request, status = OPEN,
               createdAt = new_date_created env, updatedAt = new_date_updated env,
               userId = Some (getCurrentUserId st)\<rparr>]"
    and "fst (createTask env request st)
           = Inr \<lparr>task_id = generateId env, title = trim (c_title request),
               description = map_option trim (c_description request),
               dueDate = c_dueDate request, status = OPEN,
               createdAt = new_date_created env, updatedAt = new_date_updated env,
               userId = Some (getCurrentUserId st)\<rparr>"
  using assms
  by (simp_all add: createTask_def Let_def saveTasksToStorage_ok load_after_write
      del: map_append)

lemma createTask_ok:
  assumes "\<not> quota_exceeded st"
  shows "\<exists>t. fst (createTask env request st) = Inr t
      \<and> loadTasksFromStorage (snd (createTask env request st)) = loadTasksFromStorage st @ [t]
      \<and> title t = trim (c_title request) \<and> userId t = Some (getCurrentUserId st)"
  using createTask_stored [OF assms, of env request] by simp



section \<open>Unreadable stored data\<close>

lemma map_throwing_null: "JNull \<in> set es \<Longrightarrow> isl (map_throwing revive es)"
  by (induction es) (auto simp: revive_def split: sum.splits json_elem.splits)

theorem load_corrupt_counterexample:
  "isl (load_try corrupt_store) \<and> loadTasksFromStorage corrupt_store = []"
  by (simp add: corrupt_store_def load_try_def loadTasksFromStorage_def JSON_parse_def)

text \<open>
  C9, amended. When nothing is stored, or the stored text is not JSON, or is not the text
  of an array, or is the text of an array with a \<open>null\<close> element,
  \<open>loadTasksFromStorage\<close> returns the empty sequence: the failure is caught and logged,
  and no error reaches the caller.
\<close>

theorem load_unreadable_is_empty:
  assumes "todo_tasks st = None
         \<or> (\<exists>s. todo_tasks st = Some (Malformed s))
         \<or> todo_tasks st = Some (Text_of JNotArray)
         \<or> (\<exists>es. todo_tasks st = Some (Text_of (JArray es)) \<and> JNull \<in> set es)"
  shows "loadTasksFromStorage st = []"
proof -
  consider (none) "todo_tasks st = None"
    | (bad) s where "todo_tasks st = Some (Malformed s)"
    | (other) "todo_tasks st = Some (Text_of JNotArray)"
    | (null) es where "todo_tasks st = Some (Text_of (JArray es))" "JNull \<in> set es"
    using assms by auto
  then show ?thesis
  proof cases
    case none
    then show ?thesis by (simp add: loadTasksFromStorage_def load_try_def)
  next
    case bad
    then show ?thesis by (simp add: loadTasksFromStorage_def load_try_def JSON_parse_def)
  next
    case other
    then show ?thesis by (simp add: loadTasksFromStorage_def load_try_def JSON_parse_def)
  next
    case null
    from null(2) have "isl (map_throwing revive es)" by (rule map_throwing_null)
    with null(1) show ?thesis
      by (auto simp: loadTasksFromStorage_def load_try_def JSON_parse_def split: sum.splits)
  qed
qed

theorem load_unreadable_is_empty_witness:
  "(todo_tasks corrupt_store = None
     \<or> (\<exists>s. todo_tasks corrupt_store = Some (Malformed s))
     \<or> todo_tasks corrupt_store = Some (Text_of JNotArray)
     \<or> (\<exists>es. todo_tasks corrupt_store = Some (Text_of (JArray es)) \<and> JNull \<in> set es))
   \<and> loadTasksFromStorage corrupt_store = []"
  using load_unreadable_is_empty [of corrupt_store]
  by (simp add: corrupt_store_def)

lemma quota_full_store_of: "quota_exceeded (full_store_of ts)"
  by (simp add: full_store_of_def)

section \<open>Updating and deleting\<close>

lemma findIndex_None: "findIndex P xs = None \<longleftrightarrow> (\<forall>x \<in> set xs. \<not> P x)"
  by (induction xs) auto

lemma findIndex_Some: "findIndex P xs = Some k \<Longrightarrow> k < length xs \<and> P (xs ! k)"
  by (induction xs arbitrary: k) (auto split: if_splits)

lemma updateTask_absent:
  assumes "u_id request \<notin> task_id ` set (loadTasksFromStorage st)"
  shows "updateTask now request st = (Inl (Error ''Failed to update task''), st)"
proof -
  have "findIndex (\<lambda>task. task_id task = u_id request) (loadTasksFromStorage st) = None"
    unfolding findIndex_None using assms by (metis imageI)
  then show ?thesis
    by (simp add: updateTask_def updateTask_try_def)
qed

lemma deleteTask_absent:
  assumes "i \<notin> task_id ` set (loadTasksFromStorage st)"
  shows "deleteTask i st = (Inl (Error ''Failed to delete task''), st)"
proof -
  have "filter (\<lambda>task. task_id task \<noteq> i) (loadTasksFromStorage st) = loadTasksFromStorage st"
    unfolding filter_id_conv using assms by (metis imageI)
  then show ?thesis
    by (simp add: deleteTask_def deleteTask_try_def)
qed


lemma updateTask_write_fails:
  assumes "quota_exceeded st"
  shows "updateTask now request st = (Inl (Error ''Failed to update task''), st)"
  using assms
  by (simp add: updateTask_def updateTask_try_def Let_def saveTasksToStorage_fails
      split: option.splits)

theorem absent_id_counterexample:
  "fst (deleteTask ''task_0'' (store_of [rent_task])) = Inl (Error ''Failed to delete task'') \<and>
   fst (deleteTask ''task_0'' (store_of [rent_task])) \<noteq> Inl (Error ''Task not found'') \<and>
   fst (deleteTask ''task_0'' (store_of [rent_task]))
     = fst (deleteTask (task_id rent_task) (full_store_of [rent_task]))"
  by (simp add: deleteTask_def deleteTask_try_def load_store_of load_full_store_of
      rent_task_def saveTasksToStorage_fails quota_full_store_of)

text \<open>
  C5, amended. For an id that no record of the collection has, \<open>deleteTask\<close> and
  \<open>updateTask\<close> fail with the error of the method (\<open>Failed to delete task\<close>,
  \<open>Failed to update task\<close>), which is also the error of a failed write, and the store
  is left as it was.
\<close>

theorem absent_id_fails_store_unchanged:
  assumes "i \<notin> task_id ` set (loadTasksFromStorage st)"
  shows "deleteTask i st = (Inl (Error ''Failed to delete task''), st) \<and>
         updateTask now (request\<lparr>u_id := i\<rparr>) st = (Inl (Error ''Failed to update task''), st)"
  using assms by (simp add: deleteTask_absent updateTask_absent)

theorem absent_id_fails_store_unchanged_witness:
  "''task_0'' \<notin> task_id ` set (loadTasksFromStorage (store_of [rent_task])) \<and>
   deleteTask ''task_0'' (store_of [rent_task])
     = (Inl (Error ''Failed to delete task''), store_of [rent_task]) \<and>
   updateTask 1700000200000 (rename_request\<lparr>u_id := ''task_0''\<rparr>) (store_of [rent_task])
     = (Inl (Error ''Failed to update task''), store_of [rent_task])"
  using absent_id_fails_store_unchanged [of "''task_0''" "store_of [rent_task]" 1700000200000 rename_request]
  by (simp add: load_store_of rent_task_def)

text \<open>
  C3. When the store refuses the write, \<open>updateTask\<close> fails and the store is what it was
  before the call, so the persisted record of that id is the one from before the update;
  the hook reports the failure and its visible collection is what it was before the
  action, so it matches the persisted collection as it did before.
\<close>

theorem update_write_failure_keeps_state:
  assumes "quota_exceeded st"
  shows "fst (updateTask now request st) = Inl (Error ''Failed to update task'') \<and>
         snd (updateTask now request st) = st \<and>
         fst (hook_updateTask now request (h, st)) = None \<and>
         tasks (fst (snd (hook_updateTask now request (h, st)))) = tasks h \<and>
         snd (snd (hook_updateTask now request (h, st))) = st \<and>
         (tasks h = loadTasksFromStorage st \<longrightarrow>
            tasks (fst (snd (hook_updateTask now request (h, st))))
              = loadTasksFromStorage (snd (snd (hook_updateTask now request (h, st)))))"
  using assms
  by (simp add: updateTask_write_fails hook_updateTask_def hook_updateTask_pending_def)

theorem update_write_failure_keeps_state_witness:
  "quota_exceeded (full_store_of [rent_task]) \<and>
   tasks h0 = loadTasksFromStorage (full_store_of [rent_task]) \<and>
   fst (updateTask 1700000200000 rename_request (full_store_of [rent_task]))
     = Inl (Error ''Failed to update task'') \<and>
   snd (updateTask 1700000200000 rename_request (full_store_of [rent_task]))
     = full_store_of [rent_task] \<and>
   fst (hook_updateTask 1700000200000 rename_request (h0, full_store_of [rent_task])) = None \<and>
   tasks (fst (snd (hook_updateTask 1700000200000 rename_request (h0, full_store_of [rent_task]))))
     = tasks h0 \<and>
   snd (snd (hook_updateTask 1700000200000 rename_request (h0, full_store_of [rent_task])))
     = full_store_of [rent_task] \<and>
   tasks (fst (snd (hook_updateTask 1700000200000 rename_request (h0, full_store_of [rent_task]))))
     = loadTasksFromStorage
         (snd (snd (hook_updateTask 1700000200000 rename_request (h0, full_store_of [rent_task]))))"
proof -
  have q: "quota_exceeded (full_store_of [rent_task])"
    by (rule quota_full_store_of)
  have m: "tasks h0 = loadTasksFromStorage (full_store_of [rent_task])"
    by (simp add: h0_def load_full_store_of)
  from update_write_failure_keeps_state [OF q, of 1700000200000 rename_request h0] q m
  show ?thesis by blast
qed

section \<open>Title of persisted records\<close>




section \<open>Listing and statistics\<close>

lemma getTasks_None: "getTasks None st = Inr (loadTasksFromStorage st)"
  by (simp add: getTasks_def apply_filters_def apply_sort_def)

text \<open>
  C4, the code at the failing input: with the records of two owners in the store and the
  second owner signed in, \<open>getTasks\<close> returns the records of both.
\<close>

theorem getTasks_returns_other_owners:
  "getCurrentUserId (store_of [anonymous_task, rent_task]) = ''user_1699000000000'' \<and>
   userId anonymous_task = Some ''anonymous'' \<and>
   getTasks None (store_of [anonymous_task, rent_task]) = Inr [anonymous_task, rent_task]"
proof -
  have "getCurrentUserId (store_of [anonymous_task, rent_task]) = ''user_1699000000000''"
    by (simp add: getCurrentUserId_def store_of_def)
  moreover have "userId anonymous_task = Some ''anonymous''"
    by (simp add: anonymous_task_def)
  moreover have "getTasks None (store_of [anonymous_task, rent_task]) = Inr [anonymous_task, rent_task]"
    by (simp add: getTasks_None load_store_of)
  ultimately show ?thesis by blast
qed

text \<open>
  C8. \<open>getTaskStats\<close> counts the records of the collection: all of them, the complete
  ones, the open ones, and the open ones whose due date is present and before the instant
  of the evaluation; the total is the sum of the complete and the open ones.
\<close>

theorem getTaskStats_counts:
  "\<exists>s. getTaskStats now st = Inr s
     \<and> total s = length (loadTasksFromStorage st)
     \<and> completed s = length (filter (\<lambda>task. status task = COMPLETE) (loadTasksFromStorage st))
     \<and> pending s = length (filter (\<lambda>task. status task = OPEN) (loadTasksFromStorage st))
     \<and> overdue s = length (filter (\<lambda>task. status task = OPEN \<and> (\<exists>d. dueDate task = Some d \<and> d < now))
                      (loadTasksFromStorage st))
     \<and> total s = completed s + pending s"
proof -
  let ?ts = "loadTasksFromStorage st"
  have open_iff: "(status task = OPEN) = (\<not> status task = COMPLETE)" for task :: Task
    by (cases "status task") simp_all
  have sum: "length ?ts = length (filter (\<lambda>task. status task = COMPLETE) ?ts)
                        + length (filter (\<lambda>task. status task = OPEN) ?ts)"
    unfolding open_iff by (simp add: sum_length_filter_compl)
  have due: "(case dueDate task of None \<Rightarrow> False | Some d \<Rightarrow> d < now)
             = (\<exists>d. dueDate task = Some d \<and> d < now)" for task :: Task
    by (cases "dueDate task") simp_all
  show ?thesis
    using sum by (simp add: getTaskStats_def getTasks_None due)
qed

section \<open>Sorting\<close>






















section \<open>When the hook changes the visible collection\<close>







section \<open>Ownership of created records\<close>

text \<open>
  C10. When no user identifier is stored, \<open>createTask\<close> succeeds whenever the store
  accepts the write, the owner of the new record is \<open>anonymous\<close>, and the record is
  the last one of the persisted collection.
\<close>

theorem createTask_anonymous_owner:
  assumes "todo_user_id st = None" and "\<not> quota_exceeded st"
  shows "\<exists>t. fst (createTask env request st) = Inr t
           \<and> userId t = Some ''anonymous''
           \<and> loadTasksFromStorage (snd (createTask env request st)) = loadTasksFromStorage st @ [t]"
proof -
  from createTask_ok [OF assms(2), of env request] obtain t where
    t: "fst (createTask env request st) = Inr t"
      "loadTasksFromStorage (snd (createTask env request st)) = loadTasksFromStorage st @ [t]"
    and u: "userId t = Some (getCurrentUserId st)"
    by blast
  from u assms(1) have "userId t = Some ''anonymous''"
    by (simp add: getCurrentUserId_def)
  with t show ?thesis by blast
qed

theorem createTask_anonymous_owner_witness:
  "todo_user_id empty_store = None \<and> \<not> quota_exceeded empty_store \<and>
   (\<exists>t. fst (createTask env0 milk_request empty_store) = Inr t
      \<and> userId t = Some ''anonymous''
      \<and> loadTasksFromStorage (snd (createTask env0 milk_request empty_store))
          = loadTasksFromStorage empty_store @ [t])"
  using createTask_anonymous_owner [of empty_store env0 milk_request]
  by (simp add: empty_store_def)

end
